theory Spec2Isabelle
  imports Main
begin

section \<open>Data model\<close>

text \<open>
  The controller of \<^verbatim>\<open>redpanda_controller.go\<close> works on Kubernetes objects through
  \<^verbatim>\<open>client.Client\<close>. Strings are Go strings, Go maps from string to string are HOL
  maps (a \<^verbatim>\<open>range\<close> loop that tests one fixed key is a lookup of that key, since a Go
  map holds a key at most once), nilable pointers are options.
\<close>

type_synonym key = "string \<times> string"
  \<comment> \<open>\<^verbatim>\<open>types.NamespacedName\<close>: namespace, then name\<close>

datatype kind =
  KCluster | KConsole | KPod | KService | KServiceAccount | KPodDisruptionBudget
  | KStatefulSet | KDeployment | KIngress | KRedpanda | KHelmRelease | KHelmRepository

text \<open>
  The part of a legacy object that \<^verbatim>\<open>tryMigration\<close> reads or writes: its
  \<^verbatim>\<open>ObjectMeta\<close> and, for a Service, \<^verbatim>\<open>Spec.Selector\<close> (empty for the other kinds).
\<close>

record object =
  obj_Name :: string
  obj_Namespace :: string
  obj_Labels :: "string \<rightharpoonup> string"
  obj_Annotations :: "string \<rightharpoonup> string"
  obj_Finalizers :: "string list"
  obj_Selector :: "string \<rightharpoonup> string"

definition zero_object :: object where
  \<comment> \<open>the zero value of a Go struct declared with \<^verbatim>\<open>var\<close>\<close>
  "zero_object = \<lparr>obj_Name = [], obj_Namespace = [], obj_Labels = Map.empty,
     obj_Annotations = Map.empty, obj_Finalizers = [], obj_Selector = Map.empty\<rparr>"

record UpgradeRemediation =
  ur_Retries :: int
  ur_Strategy :: "string option"

text \<open>\<^verbatim>\<open>v1alpha1.HelmUpgrade\<close>, the parent's \<^verbatim>\<open>Spec.ChartRef.Upgrade\<close>: every field a pointer.\<close>

record HelmUpgrade =
  hu_Remediation :: "UpgradeRemediation option"
  hu_Force :: "bool option"
  hu_PreserveValues :: "bool option"
  hu_CleanupOnFail :: "bool option"

text \<open>\<^verbatim>\<open>helmv2beta1.Upgrade\<close>, restricted to the fields the controller sets.\<close>

record Upgrade =
  up_Remediation :: "UpgradeRemediation option"
  up_Force :: bool
  up_PreserveValues :: bool
  up_CleanupOnFail :: bool

text \<open>
  \<^verbatim>\<open>v1alpha1.Redpanda\<close>: metadata, the fields of \<^verbatim>\<open>Spec\<close> the controller reads
  (\<^verbatim>\<open>ChartRef\<close>, \<^verbatim>\<open>ClusterSpec\<close>, \<^verbatim>\<open>Migration\<close>) and \<^verbatim>\<open>Status\<close>. Durations are
  \<^verbatim>\<open>time.Duration\<close> values, an integer count of nanoseconds.
\<close>

record Redpanda =
  rp_Name :: string
  rp_Namespace :: string
  rp_Generation :: int
  rp_Finalizers :: "string list"
  spec_ChartVersion :: string
  spec_Timeout :: "int option"
  spec_Upgrade :: "HelmUpgrade option"
  spec_FullNameOverride :: string
  spec_ConsoleEnabled :: "bool option"
  spec_ConsoleFullNameOverride :: "string option"
  mig_ClusterRef :: key
  mig_ConsoleRef :: key
  st_ObservedGeneration :: int
  st_HelmRelease :: string
  st_HelmRepository :: string
  st_HelmReleaseReady :: "bool option"
  st_HelmRepositoryReady :: "bool option"
  st_LastAttemptedRevision :: string

section \<open>Ownership markers\<close>

definition helm :: string where
  "helm = ''Helm''"

definition hasLabelsAndAnnotations :: "object \<Rightarrow> Redpanda \<Rightarrow> bool" where
  "hasLabelsAndAnnotations ob rp =
     (let manageByLabel = (obj_Labels ob ''app.kubernetes.io/managed-by'' = Some helm);
          releaseName = (obj_Annotations ob ''meta.helm.sh/release-name'' = Some (rp_Name rp));
          releaseNamespace =
            (obj_Annotations ob ''meta.helm.sh/release-namespace'' = Some (rp_Namespace rp))
      in manageByLabel \<and> releaseName \<and> releaseNamespace)"

definition setHelmLabelsAndAnnotations :: "object \<Rightarrow> Redpanda \<Rightarrow> object" where
  "setHelmLabelsAndAnnotations ob rp =
     (let labels = Map.empty(''app.kubernetes.io/managed-by'' \<mapsto> helm);
          ob1 = ob\<lparr>obj_Labels := labels\<rparr>;
          annotations = (Map.empty(''meta.helm.sh/release-name'' \<mapsto> rp_Name rp))
                          (''meta.helm.sh/release-namespace'' \<mapsto> rp_Namespace rp)
      in ob1\<lparr>obj_Annotations := annotations\<rparr>)"

section \<open>Dependent resources\<close>

text \<open>
  \<^verbatim>\<open>helmv2beta1.HelmReleaseSpec\<close>: the chart template (name, version, interval, source
  reference as kind, name and namespace), the raw JSON values, interval, timeout and
  upgrade policy.
\<close>

record HelmReleaseSpec =
  hrs_Chart :: string
  hrs_Version :: string
  hrs_ChartInterval :: "int option"
  hrs_SourceRef :: "string \<times> string \<times> string"
  hrs_Values :: "string option"
  hrs_Interval :: int
  hrs_Timeout :: "int option"
  hrs_Upgrade :: "Upgrade option"

record HelmRelease =
  hr_Name :: string
  hr_Namespace :: string
  hr_OwnerReferences :: "string list"
  hr_Generation :: int
  hr_Spec :: HelmReleaseSpec
  hr_ObservedGeneration :: int
  hr_Conditions :: "(string \<times> string) list"

record HelmRepository =
  repo_Name :: string
  repo_Namespace :: string
  repo_Generation :: int
  repo_ObservedGeneration :: int
  repo_Conditions :: "(string \<times> string) list"

section \<open>Library functions the controller calls\<close>

text \<open>
  \<^verbatim>\<open>ptr.Equal\<close> of \<^verbatim>\<open>k8s.io/utils/ptr\<close>: false when exactly one pointer is nil, true
  when both are nil, and the comparison of the two values otherwise.
\<close>

definition ptr_Equal :: "'a option \<Rightarrow> 'a option \<Rightarrow> bool" where
  "ptr_Equal a b =
     (if (a = None) \<noteq> (b = None) then False
      else case a of None \<Rightarrow> True
           | Some x \<Rightarrow> (case b of None \<Rightarrow> False | Some y \<Rightarrow> x = y))"

definition ptr_Deref :: "'a option \<Rightarrow> 'a \<Rightarrow> 'a" where
  "ptr_Deref p def = (case p of None \<Rightarrow> def | Some x \<Rightarrow> x)"

text \<open>
  \<^verbatim>\<open>apimeta.IsStatusConditionTrue\<close>: the first condition of the given type decides; a
  condition is a pair of its type and its status.
\<close>

fun IsStatusConditionTrue :: "(string \<times> string) list \<Rightarrow> string \<Rightarrow> bool" where
  "IsStatusConditionTrue [] conditionType = False"
| "IsStatusConditionTrue ((ty, status) # conditions) conditionType =
     (if ty = conditionType then status = ''True''
      else IsStatusConditionTrue conditions conditionType)"

definition ReadyCondition :: string where
  "ReadyCondition = ''Ready''"

text \<open>\<^verbatim>\<open>controllerutil.ContainsFinalizer\<close> and \<^verbatim>\<open>RemoveFinalizer\<close> on a finalizer list.\<close>

definition ContainsFinalizer :: "string list \<Rightarrow> string \<Rightarrow> bool" where
  "ContainsFinalizer fs f = (f \<in> set fs)"

definition RemoveFinalizer :: "string list \<Rightarrow> string \<Rightarrow> string list" where
  "RemoveFinalizer fs f = filter (\<lambda>g. g \<noteq> f) fs"

section \<open>Events\<close>

datatype severity = EventSeverityInfo | EventSeverityError

text \<open>
  One call of \<^verbatim>\<open>EventRecorder.AnnotatedEventf\<close>: the object the event is attached to, the
  value of the revision annotation (\<open>None\<close> for a nil annotation map), the event type, the
  reason and the message.
\<close>

record k8s_event =
  ev_kind :: kind
  ev_object :: key
  ev_revision :: "string option"
  ev_type :: string
  ev_reason :: severity
  ev_msg :: string

definition event :: "Redpanda \<Rightarrow> string \<Rightarrow> severity \<Rightarrow> string \<Rightarrow> k8s_event" where
  "event rp revision sev msg =
     (let metaData = (if revision \<noteq> [] then Some revision else None);
          eventType = (if sev = EventSeverityError then ''Warning'' else ''Normal'')
      in \<lparr>ev_kind = KRedpanda, ev_object = (rp_Namespace rp, rp_Name rp),
           ev_revision = metaData, ev_type = eventType, ev_reason = sev, ev_msg = msg\<rparr>)"

section \<open>Readiness latch\<close>

definition resourceTypeHelmRepository :: string where
  "resourceTypeHelmRepository = ''HelmRepository''"

definition resourceTypeHelmRelease :: string where
  "resourceTypeHelmRelease = ''HelmRelease''"

definition resourceReadyStrFmt :: "string \<Rightarrow> string \<Rightarrow> string \<Rightarrow> string" where
  "resourceReadyStrFmt k ns n = k @ '' '' @ [CHR 0x27] @ ns @ ''/'' @ n @ [CHR 0x27] @ '' is ready''"

definition resourceNotReadyStrFmt :: "string \<Rightarrow> string \<Rightarrow> string \<Rightarrow> string" where
  "resourceNotReadyStrFmt k ns n =
     k @ '' '' @ [CHR 0x27] @ ns @ ''/'' @ n @ [CHR 0x27] @ '' is not ready''"

text \<open>
  \<^verbatim>\<open>checkIfResourceIsReady\<close> returns its boolean, the parent with the updated status
  pointer, the events it emitted and the lines it logged. A \<^verbatim>\<open>kind\<close> that is neither
  constant falls through the \<^verbatim>\<open>switch\<close> and leaves the status alone.
\<close>

definition setReady :: "string \<Rightarrow> bool \<Rightarrow> Redpanda \<Rightarrow> Redpanda" where
  "setReady k b rp =
     (if k = resourceTypeHelmRepository then rp\<lparr>st_HelmRepositoryReady := Some b\<rparr>
      else if k = resourceTypeHelmRelease then rp\<lparr>st_HelmReleaseReady := Some b\<rparr>
      else rp)"

definition checkIfResourceIsReady ::
  "string \<Rightarrow> string \<Rightarrow> string \<Rightarrow> bool \<Rightarrow> bool \<Rightarrow> bool \<Rightarrow> bool \<Rightarrow> Redpanda
     \<Rightarrow> bool \<times> Redpanda \<times> k8s_event list \<times> string list" where
  "checkIfResourceIsReady msgNotReady msgReady k isGenerationCurrent isStatusConditionReady
       isStatusReadyNILorTRUE isStatusReadyNILorFALSE rp =
     (if isGenerationCurrent \<or> \<not> isStatusConditionReady then
        (let evs = (if isStatusReadyNILorTRUE
                    then [event rp (st_LastAttemptedRevision rp) EventSeverityInfo msgNotReady]
                    else [])
         in (False, setReady k False rp, evs, [msgNotReady]))
      else if isStatusConditionReady \<and> isStatusReadyNILorFALSE then
        (let rp1 = setReady k True rp
         in (True, rp1,
             [event rp1 (st_LastAttemptedRevision rp1) EventSeverityInfo msgReady], []))
      else (True, rp, [], []))"

text \<open>
  The lines of \<^verbatim>\<open>reconcile\<close> that feed the latch for the HelmRepository and for the
  HelmRelease: \<^verbatim>\<open>isGenerationCurrent\<close> is true when the generation differs from the
  observed one, and the two status flags compare the stored pointer with a pointer to
  true and to false.
\<close>

definition reconcile_repositoryReady ::
  "Redpanda \<Rightarrow> HelmRepository \<Rightarrow> bool \<times> Redpanda \<times> k8s_event list \<times> string list" where
  "reconcile_repositoryReady rp repo =
     (let isGenerationCurrent = (repo_Generation repo \<noteq> repo_ObservedGeneration repo);
          isStatusConditionReady = IsStatusConditionTrue (repo_Conditions repo) ReadyCondition;
          msgNotReady = resourceNotReadyStrFmt resourceTypeHelmRepository
                          (repo_Namespace repo) (repo_Name repo);
          msgReady = resourceReadyStrFmt resourceTypeHelmRepository
                          (repo_Namespace repo) (repo_Name repo);
          isStatusReadyNILorTRUE = ptr_Equal (st_HelmRepositoryReady rp) (Some True);
          isStatusReadyNILorFALSE = ptr_Equal (st_HelmRepositoryReady rp) (Some False)
      in checkIfResourceIsReady msgNotReady msgReady resourceTypeHelmRepository
           isGenerationCurrent isStatusConditionReady
           isStatusReadyNILorTRUE isStatusReadyNILorFALSE rp)"

definition reconcile_releaseReady ::
  "Redpanda \<Rightarrow> HelmRelease \<Rightarrow> bool \<times> Redpanda \<times> k8s_event list \<times> string list" where
  "reconcile_releaseReady rp hr =
     (let isGenerationCurrent = (hr_Generation hr \<noteq> hr_ObservedGeneration hr);
          isStatusConditionReady = IsStatusConditionTrue (hr_Conditions hr) ReadyCondition;
          msgNotReady = resourceNotReadyStrFmt resourceTypeHelmRelease
                          (hr_Namespace hr) (hr_Name hr);
          msgReady = resourceReadyStrFmt resourceTypeHelmRelease
                          (hr_Namespace hr) (hr_Name hr);
          isStatusReadyNILorTRUE = ptr_Equal (st_HelmReleaseReady rp) (Some True);
          isStatusReadyNILorFALSE = ptr_Equal (st_HelmReleaseReady rp) (Some False)
      in checkIfResourceIsReady msgNotReady msgReady resourceTypeHelmRelease
           isGenerationCurrent isStatusConditionReady
           isStatusReadyNILorTRUE isStatusReadyNILorFALSE rp)"

text \<open>
  A run of reconcile ticks over successive observations of the HelmRepository, the status
  of one tick being the stored status of the next: the events of each tick and the parent
  at the end.
\<close>

fun repositoryTicks :: "Redpanda \<Rightarrow> HelmRepository list \<Rightarrow> k8s_event list list \<times> Redpanda" where
  "repositoryTicks rp [] = ([], rp)"
| "repositoryTicks rp (repo # rest) =
     (case reconcile_repositoryReady rp repo of
        (ready, rp1, evs, lg) \<Rightarrow>
          (case repositoryTicks rp1 rest of (evss, rp2) \<Rightarrow> (evs # evss, rp2)))"

text \<open>
  The two observations of the hysteresis scenario: a repository whose generation is stale
  and whose Ready condition is false, and one whose generation is observed and whose Ready
  condition is true.
\<close>

definition repoF :: HelmRepository where
  "repoF = \<lparr>repo_Name = ''redpanda-repository'', repo_Namespace = ''default'',
     repo_Generation = 2, repo_ObservedGeneration = 1,
     repo_Conditions = [(''Ready'', ''False'')]\<rparr>"

definition repoT :: HelmRepository where
  "repoT = \<lparr>repo_Name = ''redpanda-repository'', repo_Namespace = ''default'',
     repo_Generation = 2, repo_ObservedGeneration = 2,
     repo_Conditions = [(''Ready'', ''True'')]\<rparr>"

section \<open>The client\<close>

text \<open>
  An error of the API server keeps its message; \<^verbatim>\<open>apierrors.IsNotFound\<close> and
  \<^verbatim>\<open>IsAlreadyExists\<close> test its reason. A Go \<^verbatim>\<open>error\<close> of the controller is such an
  error, a new error with a fixed text, or a text wrapped around a cause with \<^verbatim>\<open>%w\<close>.
\<close>

datatype apierr = NotFound string | AlreadyExists string | OtherError string

definition IsNotFound :: "apierr \<Rightarrow> bool" where
  "IsNotFound e = (case e of NotFound m \<Rightarrow> True | AlreadyExists m \<Rightarrow> False
                   | OtherError m \<Rightarrow> False)"

definition IsAlreadyExists :: "apierr \<Rightarrow> bool" where
  "IsAlreadyExists e = (case e of NotFound m \<Rightarrow> False | AlreadyExists m \<Rightarrow> True
                        | OtherError m \<Rightarrow> False)"

datatype err = Api apierr | New string | Wrap string err

fun Error :: "err \<Rightarrow> string" where
  "Error (Api (NotFound m)) = m"
| "Error (Api (AlreadyExists m)) = m"
| "Error (Api (OtherError m)) = m"
| "Error (New m) = m"
| "Error (Wrap m e) = m @ '': '' @ Error e"

datatype propagation = Orphan | Background | Foreground

text \<open>The mutating calls the controller issues, each with the object it passes.\<close>

datatype call =
    Update kind object
  | Delete kind object "propagation option"
  | CreateHelmRelease HelmRelease
  | UpdateHelmRelease HelmRelease
  | DeleteHelmRelease HelmRelease "propagation option"
  | UpdateRedpanda Redpanda

text \<open>
  \<^verbatim>\<open>client.Client\<close> is an interface, so the model takes its answers as given: what a
  read returns and whether a mutating call fails may depend on the mutating calls issued so
  far. A store that applies every call at once and a cache that lags behind are both
  instances.
\<close>

record client =
  cl_Get :: "call list \<Rightarrow> kind \<Rightarrow> key \<Rightarrow> apierr + object"
  cl_List :: "call list \<Rightarrow> string \<Rightarrow> (string \<times> string) list \<Rightarrow> apierr + object list"
  cl_GetHelmRelease :: "call list \<Rightarrow> key \<Rightarrow> apierr + HelmRelease"
  cl_write :: "call list \<Rightarrow> call \<Rightarrow> apierr option"

text \<open>
  Declarations of the repository that the controller file uses and does not contain:
  constants, the two legacy management predicates and the methods of the parent type.
\<close>

record deps =
  FinalizerKey :: string
  NotManaged :: string
  ConsoleSAFinalizer :: string
  ConsoleACLFinalizer :: string
  vectorizedGroup :: string
  isRedpandaClusterManaged :: "object \<Rightarrow> bool"
  isConsoleManaged :: "object \<Rightarrow> bool"
  GetHelmReleaseName :: "Redpanda \<Rightarrow> string"
  GetHelmRepositoryName :: "Redpanda \<Rightarrow> string"
  OwnerShipRefObj :: "Redpanda \<Rightarrow> string"
  ValuesJSON :: "Redpanda \<Rightarrow> err + string"

text \<open>What a function did besides returning: calls, events and log lines, oldest first.\<close>

record effects =
  calls :: "call list"
  events :: "k8s_event list"
  logs :: "string list"

definition no_effects :: effects where
  "no_effects = \<lparr>calls = [], events = [], logs = []\<rparr>"

definition do_write :: "client \<Rightarrow> call \<Rightarrow> effects \<Rightarrow> apierr option \<times> effects" where
  \<comment> \<open>a mutating call: its outcome, and the call appended to the trace\<close>
  "do_write cl c e = (cl_write cl (calls e) c, e\<lparr>calls := calls e @ [c]\<rparr>)"

definition emit :: "k8s_event \<Rightarrow> effects \<Rightarrow> effects" where
  "emit ev e = e\<lparr>events := events e @ [ev]\<rparr>"

definition log_Info :: "string list \<Rightarrow> effects \<Rightarrow> effects" where
  "log_Info ls e = e\<lparr>logs := logs e @ ls\<rparr>"

section \<open>HelmRelease template\<close>

definition Second :: int where
  "Second = 1000000000"

definition Minute :: int where
  "Minute = 60 * Second"

definition defaultUpgrade :: Upgrade where
  \<comment> \<open>the \<^verbatim>\<open>upgrade\<close> value built before the parent's settings are read\<close>
  "defaultUpgrade =
     \<lparr>up_Remediation = Some \<lparr>ur_Retries = 1, ur_Strategy = Some ''rollback''\<rparr>,
      up_Force = False, up_PreserveValues = False, up_CleanupOnFail = False\<rparr>"

definition mergeUpgrade :: "HelmUpgrade option \<Rightarrow> Upgrade" where
  "mergeUpgrade helmUpgrade =
     (case helmUpgrade of
        None \<Rightarrow> defaultUpgrade
      | Some hu \<Rightarrow>
          (let u1 = (if hu_Force hu \<noteq> None
                     then defaultUpgrade\<lparr>up_Force := ptr_Deref (hu_Force hu) False\<rparr>
                     else defaultUpgrade);
               u2 = (if hu_CleanupOnFail hu \<noteq> None
                     then u1\<lparr>up_CleanupOnFail := ptr_Deref (hu_CleanupOnFail hu) False\<rparr>
                     else u1);
               u3 = (if hu_PreserveValues hu \<noteq> None
                     then u2\<lparr>up_PreserveValues := ptr_Deref (hu_PreserveValues hu) False\<rparr>
                     else u2)
           in if hu_Remediation hu \<noteq> None
              then u3\<lparr>up_Remediation := hu_Remediation hu\<rparr>
              else u3))"

text \<open>
  \<^verbatim>\<open>createHelmReleaseFromTemplate\<close> returns the template or an error, and the line it
  logs. The fingerprint (SHA-256 of the raw values, URL-safe base64) is a parameter
  \<open>sha\<close>: it goes into the log line.
\<close>

definition createHelmReleaseFromTemplate ::
  "deps \<Rightarrow> (string \<Rightarrow> string) \<Rightarrow> Redpanda \<Rightarrow> (err + HelmRelease) \<times> string list" where
  "createHelmReleaseFromTemplate d sha rp =
     (case ValuesJSON d rp of
        Inl e \<Rightarrow> (Inl (Wrap ''could not parse clusterSpec to json'' e), [])
      | Inr values' \<Rightarrow>
          (let logline = ''SHA of values file to use: '' @ sha values';
               timeout = (case spec_Timeout rp of None \<Rightarrow> 15 * Minute | Some t \<Rightarrow> t);
               upgrade = mergeUpgrade (spec_Upgrade rp)
           in (Inr \<lparr>hr_Name = GetHelmReleaseName d rp,
                    hr_Namespace = rp_Namespace rp,
                    hr_OwnerReferences = [OwnerShipRefObj d rp],
                    hr_Generation = 0,
                    hr_Spec = \<lparr>hrs_Chart = ''redpanda'',
                               hrs_Version = spec_ChartVersion rp,
                               hrs_ChartInterval = Some (1 * Minute),
                               hrs_SourceRef = (''HelmRepository'', GetHelmRepositoryName d rp,
                                                rp_Namespace rp),
                               hrs_Values = Some values',
                               hrs_Interval = 30 * Second,
                               hrs_Timeout = Some timeout,
                               hrs_Upgrade = Some upgrade\<rparr>,
                    hr_ObservedGeneration = 0,
                    hr_Conditions = []\<rparr>,
               [logline])))"

section \<open>Update decision\<close>

text \<open>
  \<^verbatim>\<open>GetValues\<close> unmarshals the raw values into a map, nil when there are no values or
  they do not parse; \<open>unm\<close> is \<^verbatim>\<open>json.Unmarshal\<close>, and \<^verbatim>\<open>reflect.DeepEqual\<close> on the
  results is equality.
\<close>

definition GetValues :: "(string \<Rightarrow> 'j option) \<Rightarrow> HelmRelease \<Rightarrow> 'j option" where
  "GetValues unm hr = (case hrs_Values (hr_Spec hr) of None \<Rightarrow> None | Some raw \<Rightarrow> unm raw)"

definition helmChartRequiresUpdate :: "HelmReleaseSpec \<Rightarrow> HelmReleaseSpec \<Rightarrow> bool \<times> string list" where
  "helmChartRequiresUpdate template chart =
     (if hrs_Chart template \<noteq> hrs_Chart chart then (True, [''chart is different''])
      else if hrs_Version template \<noteq> [] \<and> hrs_Version template \<noteq> hrs_Version chart
           then (True, [''spec version is different''])
      else (False, []))"

definition helmReleaseRequiresUpdate ::
  "(string \<Rightarrow> 'j option) \<Rightarrow> HelmRelease \<Rightarrow> HelmRelease \<Rightarrow> bool \<times> string list" where
  "helmReleaseRequiresUpdate unm hr hrTemplate =
     (if GetValues unm hr \<noteq> GetValues unm hrTemplate then (True, [''values found different''])
      else if fst (helmChartRequiresUpdate (hr_Spec hr) (hr_Spec hrTemplate))
           then (True, snd (helmChartRequiresUpdate (hr_Spec hr) (hr_Spec hrTemplate))
                         @ [''chartTemplate found different''])
      else if hrs_Interval (hr_Spec hr) \<noteq> hrs_Interval (hr_Spec hrTemplate)
           then (True, [''interval found different''])
      else (False, []))"

section \<open>Resolving the HelmRelease\<close>

definition zero_HelmRelease :: HelmRelease where
  "zero_HelmRelease =
     \<lparr>hr_Name = [], hr_Namespace = [], hr_OwnerReferences = [], hr_Generation = 0,
      hr_Spec = \<lparr>hrs_Chart = [], hrs_Version = [], hrs_ChartInterval = None,
                 hrs_SourceRef = ([], [], []), hrs_Values = None, hrs_Interval = 0,
                 hrs_Timeout = None, hrs_Upgrade = None\<rparr>,
      hr_ObservedGeneration = 0, hr_Conditions = []\<rparr>"

definition quoted :: "string \<Rightarrow> string" where
  "quoted s = [CHR 0x27] @ s @ [CHR 0x27]"

text \<open>
  \<^verbatim>\<open>createHelmRelease\<close> returns the release (nil when the template failed), the error,
  the parent and the effects.
\<close>

definition createHelmRelease ::
  "deps \<Rightarrow> client \<Rightarrow> (string \<Rightarrow> string) \<Rightarrow> Redpanda \<Rightarrow> effects
     \<Rightarrow> HelmRelease option \<times> err option \<times> Redpanda \<times> effects" where
  "createHelmRelease d cl sha rp e =
     (case createHelmReleaseFromTemplate d sha rp of
        (Inl er, lg) \<Rightarrow>
          (None, Some (Wrap ''could not create HelmRelease template'' er), rp,
           emit (event rp (st_LastAttemptedRevision rp) EventSeverityError
                   (''could not create helm release template: '' @ Error er))
             (log_Info lg e))
      | (Inr hRelease, lg) \<Rightarrow>
          (case do_write cl (CreateHelmRelease hRelease) (log_Info lg e) of
             (Some er, e1) \<Rightarrow>
               if \<not> IsAlreadyExists er then
                 (Some hRelease,
                  Some (Wrap (''failed to create HelmRelease ''
                                @ quoted (rp_Namespace rp @ ''/'' @ st_HelmRelease rp)) (Api er)),
                  rp,
                  emit (event rp (st_LastAttemptedRevision rp) EventSeverityError
                          (Error (Api er))) e1)
               else
                 (let rp1 = rp\<lparr>st_HelmRelease := GetHelmReleaseName d rp\<rparr>
                  in (Some hRelease, None,
                      rp1\<lparr>st_HelmRelease := GetHelmReleaseName d rp1\<rparr>,
                      emit (event rp1 (st_LastAttemptedRevision rp1) EventSeverityInfo
                              (''HelmRelease ''
                                 @ quoted (rp_Namespace rp1 @ ''/'' @ GetHelmReleaseName d rp1)
                                 @ '' created '')) e1))
           | (None, e1) \<Rightarrow>
               (Some hRelease, None, rp\<lparr>st_HelmRelease := GetHelmReleaseName d rp\<rparr>,
                emit (event rp (st_LastAttemptedRevision rp) EventSeverityInfo
                        (''HelmRelease ''
                           @ quoted (rp_Namespace rp @ ''/'' @ GetHelmReleaseName d rp)
                           @ '' created '')) e1)))"

text \<open>
  \<^verbatim>\<open>reconcileHelmRelease\<close> returns the parent, the release, the error and the effects.
  The status getter \<^verbatim>\<open>Status.GetHelmRelease\<close> reads the field \<^verbatim>\<open>Status.HelmRelease\<close>.
\<close>

definition reconcileHelmRelease ::
  "deps \<Rightarrow> client \<Rightarrow> (string \<Rightarrow> 'j option) \<Rightarrow> (string \<Rightarrow> string) \<Rightarrow> Redpanda \<Rightarrow> effects
     \<Rightarrow> Redpanda \<times> HelmRelease option \<times> err option \<times> effects" where
  "reconcileHelmRelease d cl unm sha rp e =
     (if st_HelmRelease rp = [] then
        (case createHelmRelease d cl sha rp e of (hr, er, rp1, e1) \<Rightarrow> (rp1, hr, er, e1))
      else
        (case cl_GetHelmRelease cl (calls e) (rp_Namespace rp, st_HelmRelease rp) of
           Inl er \<Rightarrow>
             if IsNotFound er then
               (case createHelmRelease d cl sha (rp\<lparr>st_HelmRelease := []\<rparr>) e of
                  (hr, er1, rp1, e1) \<Rightarrow> (rp1, hr, er1, e1))
             else
               (rp, Some zero_HelmRelease,
                Some (Wrap (''failed to get HelmRelease ''
                              @ quoted (rp_Namespace rp @ ''/'' @ st_HelmRelease rp)) (Api er)),
                e)
         | Inr hr \<Rightarrow>
             (case createHelmReleaseFromTemplate d sha rp of
                (Inl errTemplated, lg) \<Rightarrow>
                  (rp, Some hr, Some errTemplated,
                   emit (event rp (st_LastAttemptedRevision rp) EventSeverityError
                           (Error errTemplated)) (log_Info lg e))
              | (Inr hrTemplate, lg) \<Rightarrow>
                  (case helmReleaseRequiresUpdate unm hr hrTemplate of
                     (True, lg2) \<Rightarrow>
                       (let hr1 = hr\<lparr>hr_Spec := hr_Spec hrTemplate\<rparr>
                        in case do_write cl (UpdateHelmRelease hr1) (log_Info (lg @ lg2) e) of
                             (Some er, e1) \<Rightarrow>
                               (rp, Some hr1, Some (Api er),
                                emit (event rp (st_LastAttemptedRevision rp) EventSeverityError
                                        (Error (Api er))) e1)
                           | (None, e1) \<Rightarrow>
                               (rp\<lparr>st_HelmRelease := GetHelmReleaseName d rp\<rparr>, Some hr1, None,
                                emit (event rp (st_LastAttemptedRevision rp) EventSeverityInfo
                                        (''HelmRelease ''
                                           @ quoted (rp_Namespace rp @ ''/''
                                                       @ GetHelmReleaseName d rp)
                                           @ '' updated'')) e1))
                   | (False, lg2) \<Rightarrow> (rp, Some hr, None, log_Info (lg @ lg2) e)))))"

section \<open>Deletion protocol\<close>

definition deleteHelmRelease ::
  "client \<Rightarrow> Redpanda \<Rightarrow> effects \<Rightarrow> err option \<times> Redpanda \<times> effects" where
  "deleteHelmRelease cl rp e =
     (if st_HelmRelease rp = [] then (None, rp, e)
      else
        (case cl_GetHelmRelease cl (calls e) (rp_Namespace rp, st_HelmRelease rp) of
           Inl er \<Rightarrow>
             if IsNotFound er then
               (None, rp\<lparr>st_HelmRelease := [], st_HelmRepository := []\<rparr>, e)
             else
               (Some (Wrap (''failed to get HelmRelease '' @ quoted (st_HelmRelease rp))
                        (Api er)), rp, e)
         | Inr hr \<Rightarrow>
             (case do_write cl (DeleteHelmRelease hr (Some Foreground)) e of
                (Some er, e1) \<Rightarrow>
                  (Some (Wrap (''deleting helm release connected with Redpanda (''
                                 @ rp_Name rp @ '')'') (Api er)), rp, e1)
              | (None, e1) \<Rightarrow> (Some (New ''wait for helm release deletion''), rp, e1))))"

text \<open>\<^verbatim>\<open>reconcileDelete\<close>; its \<^verbatim>\<open>ctrl.Result\<close> is always the empty one and is left out.\<close>

definition reconcileDelete ::
  "deps \<Rightarrow> client \<Rightarrow> Redpanda \<Rightarrow> effects \<Rightarrow> err option \<times> Redpanda \<times> effects" where
  "reconcileDelete d cl rp e =
     (case deleteHelmRelease cl rp e of
        (Some er, rp1, e1) \<Rightarrow> (Some er, rp1, e1)
      | (None, rp1, e1) \<Rightarrow>
          if ContainsFinalizer (rp_Finalizers rp1) (FinalizerKey d) then
            (let rp2 = rp1\<lparr>rp_Finalizers := RemoveFinalizer (rp_Finalizers rp1) (FinalizerKey d)\<rparr>
             in case do_write cl (UpdateRedpanda rp2) e1 of
                  (Some er, e2) \<Rightarrow> (Some (Api er), rp2, e2)
                | (None, e2) \<Rightarrow> (None, rp2, e2))
          else (None, rp1, e1))"

text \<open>
  A deletion sequence: the work queue invokes \<^verbatim>\<open>reconcileDelete\<close> again while it
  returns an error, here at most \<open>n\<close> more times. \<^verbatim>\<open>Reconcile\<close> reads the parent anew
  at every invocation, and no invocation that failed has written it, so each invocation
  starts from the same parent.
\<close>

fun deletionSequence ::
  "deps \<Rightarrow> client \<Rightarrow> nat \<Rightarrow> Redpanda \<Rightarrow> effects \<Rightarrow> err option \<times> Redpanda \<times> effects" where
  "deletionSequence d cl 0 rp e = reconcileDelete d cl rp e"
| "deletionSequence d cl (Suc n) rp e =
     (case reconcileDelete d cl rp e of
        (None, rp1, e1) \<Rightarrow> (None, rp1, e1)
      | (Some er, rp1, e1) \<Rightarrow> deletionSequence d cl n rp e1)"

definition isDeleteHelmRelease :: "call \<Rightarrow> bool" where
  "isDeleteHelmRelease c = (case c of DeleteHelmRelease hr p \<Rightarrow> True | _ \<Rightarrow> False)"

definition isUpdateRedpanda :: "call \<Rightarrow> bool" where
  "isUpdateRedpanda c = (case c of UpdateRedpanda rp \<Rightarrow> True | _ \<Rightarrow> False)"

text \<open>
  What \<^verbatim>\<open>reconcileHelmRelease\<close> returns and does, without the log: the parent, the
  release, the error, the calls and the events.
\<close>

definition visible ::
  "Redpanda \<times> HelmRelease option \<times> err option \<times> effects
     \<Rightarrow> Redpanda \<times> HelmRelease option \<times> err option \<times> call list \<times> k8s_event list" where
  "visible r = (case r of (rp, hr, er, e) \<Rightarrow> (rp, hr, er, calls e, events e))"

section \<open>Migration\<close>

text \<open>
  The state \<^verbatim>\<open>tryMigration\<close> carries from step to step: the calls issued and the events
  emitted so far, \<^verbatim>\<open>errorResult\<close>, and the variable \<^verbatim>\<open>sts\<close>, which is declared before
  the StatefulSet is fetched and read again when the console Deployment is handled.
  \<^verbatim>\<open>errors.Join(e, errorResult)\<close> puts the new error in front of the ones joined before;
  the list holds them in that order.
\<close>

record mig =
  m_calls :: "call list"
  m_events :: "k8s_event list"
  errorResult :: "err list"
  v_sts :: object

definition mig0 :: mig where
  "mig0 = \<lparr>m_calls = [], m_events = [], errorResult = [], v_sts = zero_object\<rparr>"

definition managedPath :: string where
  "managedPath = ''/managed''"

definition join_error :: "string \<Rightarrow> apierr \<Rightarrow> mig \<Rightarrow> mig" where
  \<comment> \<open>\<^verbatim>\<open>errorResult = errors.Join(fmt.Errorf("<text>: %w", err), errorResult)\<close>\<close>
  "join_error txt er s = s\<lparr>errorResult := Wrap txt (Api er) # errorResult s\<rparr>"

definition migration_event :: "Redpanda \<Rightarrow> kind \<Rightarrow> object \<Rightarrow> string \<Rightarrow> k8s_event" where
  \<comment> \<open>the \<^verbatim>\<open>AnnotatedEventf\<close> call of every step: revision annotation, Normal, info\<close>
  "migration_event rp k ob msg =
     \<lparr>ev_kind = k, ev_object = (obj_Namespace ob, obj_Name ob),
      ev_revision = Some (st_LastAttemptedRevision rp), ev_type = ''Normal'',
      ev_reason = EventSeverityInfo, ev_msg = msg\<rparr>"

text \<open>
  Every step ends with the same three statements: the mutating call, its error joined to
  \<^verbatim>\<open>errorResult\<close> under the step's text, and the event, which is emitted whether or not
  the call failed.
\<close>

definition mutate ::
  "client \<Rightarrow> Redpanda \<Rightarrow> call \<Rightarrow> string \<Rightarrow> kind \<Rightarrow> object \<Rightarrow> string \<Rightarrow> mig \<Rightarrow> mig" where
  "mutate cl rp c txt k ob msg s =
     (let s1 = (case cl_write cl (m_calls s) c of
                  Some er \<Rightarrow> join_error txt er s
                | None \<Rightarrow> s)
      in s1\<lparr>m_calls := m_calls s @ [c],
             m_events := m_events s @ [migration_event rp k ob msg]\<rparr>)"

definition disableReconciliation :: "deps \<Rightarrow> object \<Rightarrow> object" where
  \<comment> \<open>\<^verbatim>\<open>disableRedpandaReconciliation\<close> and \<^verbatim>\<open>disableConsoleReconciliation\<close>, the same body\<close>
  "disableReconciliation d ob =
     ob\<lparr>obj_Annotations := (obj_Annotations ob)(vectorizedGroup d @ managedPath \<mapsto> NotManaged d)\<rparr>"

definition ref_or_default :: "string \<Rightarrow> string \<Rightarrow> string" where
  "ref_or_default x def = (if x = [] then def else x)"

definition migrateCluster :: "deps \<Rightarrow> client \<Rightarrow> Redpanda \<Rightarrow> mig \<Rightarrow> mig" where
  "migrateCluster d cl rp s =
     (let namespace = ref_or_default (fst (mig_ClusterRef rp)) (rp_Namespace rp);
          name = ref_or_default (snd (mig_ClusterRef rp)) (rp_Name rp)
      in case cl_Get cl (m_calls s) KCluster (namespace, name) of
           Inl er \<Rightarrow>
             join_error (''get cluster reference ('' @ namespace @ ''/'' @ name @ '')'') er s
         | Inr cluster \<Rightarrow>
             if isRedpandaClusterManaged d cluster then
               (let annotatedCluster = disableReconciliation d cluster
                in mutate cl rp (Update KCluster annotatedCluster)
                     (''disabling Cluster reconciliation ('' @ obj_Name annotatedCluster @ '')'')
                     KCluster annotatedCluster ''update Cluster custom resource'' s)
             else s)"

definition migrateConsole :: "deps \<Rightarrow> client \<Rightarrow> Redpanda \<Rightarrow> mig \<Rightarrow> mig" where
  "migrateConsole d cl rp s =
     (let namespace = ref_or_default (fst (mig_ConsoleRef rp)) (rp_Namespace rp);
          name = ref_or_default (snd (mig_ConsoleRef rp)) (rp_Name rp)
      in case cl_Get cl (m_calls s) KConsole (namespace, name) of
           Inl er \<Rightarrow>
             join_error (''get cluster reference ('' @ namespace @ ''/'' @ name @ '')'') er s
         | Inr console \<Rightarrow>
             if isConsoleManaged d console
                \<or> ContainsFinalizer (obj_Finalizers console) (ConsoleSAFinalizer d)
                \<or> ContainsFinalizer (obj_Finalizers console) (ConsoleACLFinalizer d) then
               (let a1 = disableReconciliation d console;
                    a2 = a1\<lparr>obj_Finalizers :=
                              RemoveFinalizer (obj_Finalizers a1) (ConsoleSAFinalizer d)\<rparr>;
                    annotatedConsole = a2\<lparr>obj_Finalizers :=
                              RemoveFinalizer (obj_Finalizers a2) (ConsoleACLFinalizer d)\<rparr>
                in mutate cl rp (Update KConsole annotatedConsole)
                     (''disabling Cluster reconciliation ('' @ obj_Name annotatedConsole @ '')'')
                     KConsole annotatedConsole ''update Console custom resource'' s)
             else s)"

fun migratePodItems :: "deps \<Rightarrow> client \<Rightarrow> Redpanda \<Rightarrow> object list \<Rightarrow> mig \<Rightarrow> mig" where
  "migratePodItems d cl rp [] s = s"
| "migratePodItems d cl rp (item # items) s =
     (if obj_Labels item ''app.kubernetes.io/component'' = Some ''redpanda-statefulset''
         \<and> \<not> ContainsFinalizer (obj_Finalizers item) (FinalizerKey d)
      then migratePodItems d cl rp items s
      else
        (let newPod = item\<lparr>obj_Labels := (obj_Labels item)
                               (''app.kubernetes.io/component'' \<mapsto> ''redpanda-statefulset''),
                            obj_Finalizers := RemoveFinalizer (obj_Finalizers item) (FinalizerKey d)\<rparr>
         in migratePodItems d cl rp items
              (mutate cl rp (Update KPod newPod)
                 (''updating component Pod label ('' @ obj_Name newPod @ '')'')
                 KPod newPod ''update Redpanda Pod'' s)))"

definition migratePods :: "deps \<Rightarrow> client \<Rightarrow> Redpanda \<Rightarrow> mig \<Rightarrow> mig" where
  "migratePods d cl rp s =
     (case cl_List cl (m_calls s) (rp_Namespace rp)
             [(''app.kubernetes.io/instance'', rp_Name rp), (''app.kubernetes.io/name'', ''redpanda'')] of
        Inl er \<Rightarrow> migratePodItems d cl rp [] (join_error ''listing pods'' er s)
      | Inr items \<Rightarrow> migratePodItems d cl rp items s)"

definition serviceSelector :: "Redpanda \<Rightarrow> string \<Rightarrow> (string \<rightharpoonup> string)" where
  "serviceSelector rp app =
     (Map.empty(''app.kubernetes.io/instance'' \<mapsto> rp_Name rp))(''app.kubernetes.io/name'' \<mapsto> app)"

text \<open>
  The internal Service and the console Service go through the same block, with the
  application name of the selector and the texts as the only differences.
\<close>

definition migrateService ::
  "client \<Rightarrow> Redpanda \<Rightarrow> string \<Rightarrow> string \<Rightarrow> string \<Rightarrow> string \<Rightarrow> string \<Rightarrow> mig \<Rightarrow> mig" where
  "migrateService cl rp name app getTxt updateTxt msg s =
     (case cl_Get cl (m_calls s) KService (rp_Namespace rp, name) of
        Inl er \<Rightarrow> join_error (getTxt @ '' ('' @ name @ '')'') er s
      | Inr svc \<Rightarrow>
          if \<not> hasLabelsAndAnnotations svc rp \<or> obj_Selector svc \<noteq> serviceSelector rp app then
            (let svc1 = (setHelmLabelsAndAnnotations svc rp)\<lparr>obj_Selector := serviceSelector rp app\<rparr>
             in mutate cl rp (Update KService svc1) (updateTxt @ '' ('' @ obj_Name svc1 @ '')'')
                  KService svc1 msg s)
          else s)"

text \<open>
  The external Service, the ServiceAccount, the PodDisruptionBudget, the console
  ServiceAccount and the console Ingress go through one block: fetch by name, and when the
  markers are missing stamp a copy and update it.
\<close>

definition migrateLabels ::
  "client \<Rightarrow> Redpanda \<Rightarrow> kind \<Rightarrow> string \<Rightarrow> string \<Rightarrow> string \<Rightarrow> string \<Rightarrow> mig \<Rightarrow> mig" where
  "migrateLabels cl rp k name getTxt updateTxt msg s =
     (case cl_Get cl (m_calls s) k (rp_Namespace rp, name) of
        Inl er \<Rightarrow> join_error (getTxt @ '' ('' @ name @ '')'') er s
      | Inr ob \<Rightarrow>
          if \<not> hasLabelsAndAnnotations ob rp then
            (let annotated = setHelmLabelsAndAnnotations ob rp
             in mutate cl rp (Update k annotated) (updateTxt @ '' ('' @ obj_Name annotated @ '')'')
                  k annotated msg s)
          else s)"

definition migrateStatefulSet :: "client \<Rightarrow> Redpanda \<Rightarrow> string \<Rightarrow> mig \<Rightarrow> mig" where
  "migrateStatefulSet cl rp resourcesName s =
     (case cl_Get cl (m_calls s) KStatefulSet (rp_Namespace rp, resourcesName) of
        Inl er \<Rightarrow> join_error (''get statefulset ('' @ resourcesName @ '')'') er s
      | Inr sts \<Rightarrow>
          if \<not> hasLabelsAndAnnotations sts rp then
            mutate cl rp (Delete KStatefulSet sts (Some Orphan))
              (''deleting statefulset ('' @ obj_Name sts @ '')'')
              KStatefulSet sts ''delete StatefulSet with orphant propagation mode''
              (s\<lparr>v_sts := sts\<rparr>)
          else s\<lparr>v_sts := sts\<rparr>)"

definition migrateConsoleDeployment :: "client \<Rightarrow> Redpanda \<Rightarrow> string \<Rightarrow> mig \<Rightarrow> mig" where
  "migrateConsoleDeployment cl rp consoleResourcesName s =
     (case cl_Get cl (m_calls s) KDeployment (rp_Namespace rp, consoleResourcesName) of
        Inl er \<Rightarrow> join_error (''get console deployment ('' @ consoleResourcesName @ '')'') er s
      | Inr deploy \<Rightarrow>
          if \<not> hasLabelsAndAnnotations (v_sts s) rp then
            mutate cl rp (Delete KDeployment deploy None)
              (''deleting console deployment ('' @ obj_Name deploy @ '')'')
              KDeployment deploy ''delete console Deployment'' s
          else s)"

definition migrateConsoleResources :: "client \<Rightarrow> Redpanda \<Rightarrow> mig \<Rightarrow> mig" where
  "migrateConsoleResources cl rp s =
     (let overwriteSAName = ptr_Deref (spec_ConsoleFullNameOverride rp) [];
          consoleResourcesName = (if overwriteSAName \<noteq> [] then overwriteSAName else rp_Name rp);
          s1 = migrateLabels cl rp KServiceAccount consoleResourcesName
                 ''get console service account'' ''updating console service account''
                 ''update console ServiceAccount'' s;
          s2 = migrateService cl rp consoleResourcesName ''console''
                 ''get console service'' ''updating console service''
                 ''update console Service'' s1;
          s3 = migrateConsoleDeployment cl rp consoleResourcesName s2
      in migrateLabels cl rp KIngress consoleResourcesName
           ''get console ingress'' ''updating console ingress'' ''update console Ingress'' s3)"

definition resourcesName :: "Redpanda \<Rightarrow> string" where
  "resourcesName rp =
     (if spec_FullNameOverride rp \<noteq> [] then spec_FullNameOverride rp else rp_Name rp)"

definition tryMigration :: "deps \<Rightarrow> client \<Rightarrow> Redpanda \<Rightarrow> mig" where
  "tryMigration d cl rp =
     (let s1 = migrateCluster d cl rp mig0;
          s2 = migrateConsole d cl rp s1;
          s3 = migratePods d cl rp s2;
          s4 = migrateService cl rp (resourcesName rp) ''redpanda''
                 ''get internal service'' ''updating internal service''
                 ''update internal Service'' s3;
          s5 = migrateLabels cl rp KService (resourcesName rp @ ''-external'')
                 ''get external service'' ''updating external service''
                 ''update external Service'' s4;
          s6 = migrateLabels cl rp KServiceAccount (resourcesName rp)
                 ''get service account'' ''updating service account''
                 ''update ServiceAccount'' s5;
          s7 = migrateLabels cl rp KPodDisruptionBudget (resourcesName rp)
                 ''get pod disruption budget'' ''updating pod disruption budget''
                 ''update PodDistributionBudget'' s6;
          s8 = migrateStatefulSet cl rp (resourcesName rp) s7
      in if ptr_Deref (spec_ConsoleEnabled rp) True then migrateConsoleResources cl rp s8
         else s8)"

section \<open>Sample inputs\<close>

text \<open>
  One instance of the declarations the controller file leaves out, with the values the
  repository gives them (finalizer and names as in the end-to-end assertions), and a
  parent named \<open>redpanda\<close> in namespace \<open>default\<close>.
\<close>

definition managed0 :: "object \<Rightarrow> bool" where
  "managed0 ob = (obj_Annotations ob ''redpanda.vectorized.io/managed'' \<noteq> Some ''false'')"

definition name0 :: "Redpanda \<Rightarrow> string" where
  "name0 rp = rp_Name rp"

definition repositoryName0 :: "Redpanda \<Rightarrow> string" where
  "repositoryName0 rp = ''redpanda-repository''"

definition valuesJSON0 :: "Redpanda \<Rightarrow> err + string" where
  "valuesJSON0 rp = Inr ''{}''"

definition deps0 :: deps where
  "deps0 = \<lparr>FinalizerKey = ''operator.redpanda.com/finalizer'',
     NotManaged = ''false'',
     ConsoleSAFinalizer = ''consoles.redpanda.vectorized.io/service-account'',
     ConsoleACLFinalizer = ''consoles.redpanda.vectorized.io/acl'',
     vectorizedGroup = ''redpanda.vectorized.io'',
     isRedpandaClusterManaged = managed0,
     isConsoleManaged = managed0,
     GetHelmReleaseName = name0,
     GetHelmRepositoryName = repositoryName0,
     OwnerShipRefObj = name0,
     ValuesJSON = valuesJSON0\<rparr>"

definition unm0 :: "string \<Rightarrow> string option" where
  "unm0 raw = Some raw"

definition sha0 :: "string \<Rightarrow> string" where
  "sha0 raw = ''sha256-of-'' @ raw"

definition rp0 :: Redpanda where
  "rp0 = \<lparr>rp_Name = ''redpanda'', rp_Namespace = ''default'', rp_Generation = 1,
     rp_Finalizers = [''operator.redpanda.com/finalizer''],
     spec_ChartVersion = ''5.6.46'', spec_Timeout = None, spec_Upgrade = None,
     spec_FullNameOverride = [], spec_ConsoleEnabled = None,
     spec_ConsoleFullNameOverride = Some ''redpanda-console'',
     mig_ClusterRef = ([], []), mig_ConsoleRef = ([], []),
     st_ObservedGeneration = 1, st_HelmRelease = ''redpanda'',
     st_HelmRepository = ''redpanda-repository'',
     st_HelmReleaseReady = Some True, st_HelmRepositoryReady = Some True,
     st_LastAttemptedRevision = ''5.6.46''\<rparr>"

definition upgradeForce :: HelmUpgrade where
  \<comment> \<open>a parent that sets only \<^verbatim>\<open>force\<close>\<close>
  "upgradeForce = \<lparr>hu_Remediation = None, hu_Force = Some True, hu_PreserveValues = None,
     hu_CleanupOnFail = None\<rparr>"

definition liveHR :: HelmRelease where
  \<comment> \<open>the release the template of \<open>rp0\<close> describes, as found in the store\<close>
  "liveHR = \<lparr>hr_Name = ''redpanda'', hr_Namespace = ''default'',
     hr_OwnerReferences = [''redpanda''], hr_Generation = 1,
     hr_Spec = \<lparr>hrs_Chart = ''redpanda'', hrs_Version = ''5.6.46'',
                hrs_ChartInterval = Some (1 * Minute),
                hrs_SourceRef = (''HelmRepository'', ''redpanda-repository'', ''default''),
                hrs_Values = Some ''{}'', hrs_Interval = 30 * Second,
                hrs_Timeout = Some (15 * Minute), hrs_Upgrade = Some defaultUpgrade\<rparr>,
     hr_ObservedGeneration = 1, hr_Conditions = [(''Ready'', ''True'')]\<rparr>"

definition liveHR_noVersion :: HelmRelease where
  \<comment> \<open>the same release with an empty chart version\<close>
  "liveHR_noVersion = liveHR\<lparr>hr_Spec := (hr_Spec liveHR)\<lparr>hrs_Version := []\<rparr>\<rparr>"

definition templateHR :: HelmRelease where
  \<comment> \<open>the template \<^verbatim>\<open>createHelmReleaseFromTemplate\<close> builds for \<open>rp0\<close>\<close>
  "templateHR = liveHR\<lparr>hr_Generation := 0, hr_ObservedGeneration := 0, hr_Conditions := []\<rparr>"

definition notFound0 :: apierr where
  "notFound0 = NotFound ''not found''"

definition refused0 :: apierr where
  "refused0 = OtherError ''connection refused''"

text \<open>
  A client whose store holds the given HelmRelease until \<open>n\<close> delete calls for a
  HelmRelease have been issued, holds no legacy object, and accepts every write. With
  \<open>n = 1\<close> the release is gone right after the first delete; with \<open>n = 2\<close> it is still
  there at the next invocation, as an object is while its foreground deletion is pending.
\<close>

definition client_linger :: "HelmRelease \<Rightarrow> nat \<Rightarrow> client" where
  "client_linger hr n =
     \<lparr>cl_Get = (\<lambda>h k nn. Inl notFound0),
      cl_List = (\<lambda>h ns ls. Inr []),
      cl_GetHelmRelease = (\<lambda>h nn.
         if length (filter isDeleteHelmRelease h) < n \<and> nn = (hr_Namespace hr, hr_Name hr)
         then Inr hr else Inl notFound0),
      cl_write = (\<lambda>h c. None)\<rparr>"

text \<open>
  Legacy objects for the parent \<open>rp0\<close>: \<open>sample_object\<close> is an object that passes every
  check of the migration (markers, disabled legacy management, matching selector),
  \<open>legacy_object\<close> one that carries nothing, \<open>sample_pod\<close> a pod with the component label
  and no finalizer.
\<close>

definition sample_object :: "string \<Rightarrow> object" where
  "sample_object n =
     \<lparr>obj_Name = n, obj_Namespace = ''default'',
      obj_Labels = [''app.kubernetes.io/managed-by'' \<mapsto> ''Helm''],
      obj_Annotations = [''meta.helm.sh/release-name'' \<mapsto> ''redpanda'',
                         ''meta.helm.sh/release-namespace'' \<mapsto> ''default'',
                         ''redpanda.vectorized.io/managed'' \<mapsto> ''false''],
      obj_Finalizers = [],
      obj_Selector = (if n = ''redpanda-console'' then serviceSelector rp0 ''console''
                      else serviceSelector rp0 ''redpanda'')\<rparr>"

definition legacy_object :: "string \<Rightarrow> object" where
  "legacy_object n = zero_object\<lparr>obj_Name := n, obj_Namespace := ''default''\<rparr>"

definition sample_pod :: object where
  "sample_pod = (legacy_object ''redpanda-0'')
     \<lparr>obj_Labels := [''app.kubernetes.io/component'' \<mapsto> ''redpanda-statefulset'']\<rparr>"

text \<open>
  A client that answers every read of kind \<open>k0\<close> with \<open>r\<close> and every other read with the
  object that passes the checks, lists \<open>sample_pod\<close>, and accepts every write.
\<close>

definition client_with :: "kind \<Rightarrow> (apierr + object) \<Rightarrow> client" where
  "client_with k0 r =
     \<lparr>cl_Get = (\<lambda>h k nn. if k = k0 then r else Inr (sample_object (snd nn))),
      cl_List = (\<lambda>h ns ls. Inr [sample_pod]),
      cl_GetHelmRelease = (\<lambda>h nn. Inl notFound0),
      cl_write = (\<lambda>h c. None)\<rparr>"


section \<open>Properties of a migration run\<close>



text \<open>
  A resource set that is already migrated, read off the client before any call has been
  issued: every fetch either fails or returns an object that is correct by its own
  content. The legacy Cluster and Console are no longer managed and the Console carries
  neither legacy finalizer, every listed pod has the component label and no finalizer,
  every other object carries the markers, and the two Services with a fixed selector have
  it.
\<close>

definition fetched_ok :: "(apierr + object) \<Rightarrow> (object \<Rightarrow> bool) \<Rightarrow> bool" where
  "fetched_ok r chk = (case r of Inl er \<Rightarrow> True | Inr ob \<Rightarrow> chk ob)"

definition pod_ok :: "deps \<Rightarrow> object \<Rightarrow> bool" where
  "pod_ok d item =
     (obj_Labels item ''app.kubernetes.io/component'' = Some ''redpanda-statefulset''
      \<and> \<not> ContainsFinalizer (obj_Finalizers item) (FinalizerKey d))"

definition service_ok :: "Redpanda \<Rightarrow> string \<Rightarrow> object \<Rightarrow> bool" where
  "service_ok rp app svc =
     (hasLabelsAndAnnotations svc rp \<and> obj_Selector svc = serviceSelector rp app)"

definition consoleResourcesName :: "Redpanda \<Rightarrow> string" where
  "consoleResourcesName rp =
     (if ptr_Deref (spec_ConsoleFullNameOverride rp) [] \<noteq> []
      then ptr_Deref (spec_ConsoleFullNameOverride rp) [] else rp_Name rp)"

definition alreadyMigrated :: "deps \<Rightarrow> client \<Rightarrow> Redpanda \<Rightarrow> bool" where
  "alreadyMigrated d cl rp =
     (fetched_ok (cl_Get cl [] KCluster
                    (ref_or_default (fst (mig_ClusterRef rp)) (rp_Namespace rp),
                     ref_or_default (snd (mig_ClusterRef rp)) (rp_Name rp)))
        (\<lambda>ob. \<not> isRedpandaClusterManaged d ob)
      \<and> fetched_ok (cl_Get cl [] KConsole
                    (ref_or_default (fst (mig_ConsoleRef rp)) (rp_Namespace rp),
                     ref_or_default (snd (mig_ConsoleRef rp)) (rp_Name rp)))
        (\<lambda>ob. \<not> isConsoleManaged d ob
              \<and> \<not> ContainsFinalizer (obj_Finalizers ob) (ConsoleSAFinalizer d)
              \<and> \<not> ContainsFinalizer (obj_Finalizers ob) (ConsoleACLFinalizer d))
      \<and> (case cl_List cl [] (rp_Namespace rp)
                 [(''app.kubernetes.io/instance'', rp_Name rp),
                  (''app.kubernetes.io/name'', ''redpanda'')] of
            Inl er \<Rightarrow> True | Inr items \<Rightarrow> list_all (pod_ok d) items)
      \<and> fetched_ok (cl_Get cl [] KService (rp_Namespace rp, resourcesName rp))
          (service_ok rp ''redpanda'')
      \<and> fetched_ok (cl_Get cl [] KService (rp_Namespace rp, resourcesName rp @ ''-external''))
          (\<lambda>ob. hasLabelsAndAnnotations ob rp)
      \<and> fetched_ok (cl_Get cl [] KServiceAccount (rp_Namespace rp, resourcesName rp))
          (\<lambda>ob. hasLabelsAndAnnotations ob rp)
      \<and> fetched_ok (cl_Get cl [] KPodDisruptionBudget (rp_Namespace rp, resourcesName rp))
          (\<lambda>ob. hasLabelsAndAnnotations ob rp)
      \<and> fetched_ok (cl_Get cl [] KStatefulSet (rp_Namespace rp, resourcesName rp))
          (\<lambda>ob. hasLabelsAndAnnotations ob rp)
      \<and> (if ptr_Deref (spec_ConsoleEnabled rp) True then
            fetched_ok (cl_Get cl [] KServiceAccount (rp_Namespace rp, consoleResourcesName rp))
              (\<lambda>ob. hasLabelsAndAnnotations ob rp)
            \<and> fetched_ok (cl_Get cl [] KService (rp_Namespace rp, consoleResourcesName rp))
                (service_ok rp ''console'')
            \<and> fetched_ok (cl_Get cl [] KDeployment (rp_Namespace rp, consoleResourcesName rp))
                (\<lambda>ob. hasLabelsAndAnnotations ob rp)
            \<and> fetched_ok (cl_Get cl [] KIngress (rp_Namespace rp, consoleResourcesName rp))
                (\<lambda>ob. hasLabelsAndAnnotations ob rp)
          else True))"


section \<open>Theorems\<close>

text \<open>
  C10: for every object and parent, \<^verbatim>\<open>setHelmLabelsAndAnnotations\<close> replaces the whole
  label map by the single managed-by label and the whole annotation map by the release-name
  and release-namespace annotations, whatever the object carried before, and
  \<^verbatim>\<open>hasLabelsAndAnnotations\<close> then returns true.
\<close>

theorem setHelmLabelsAndAnnotations_roundtrip:
  "obj_Labels (setHelmLabelsAndAnnotations ob rp) =
     [''app.kubernetes.io/managed-by'' \<mapsto> ''Helm'']
   \<and> obj_Annotations (setHelmLabelsAndAnnotations ob rp) =
     [''meta.helm.sh/release-name'' \<mapsto> rp_Name rp,
      ''meta.helm.sh/release-namespace'' \<mapsto> rp_Namespace rp]
   \<and> hasLabelsAndAnnotations (setHelmLabelsAndAnnotations ob rp) rp"
  by (simp add: setHelmLabelsAndAnnotations_def hasLabelsAndAnnotations_def helm_def)

text \<open>
  C1: the hysteresis scenario on the code. From an unset (\<open>Unknown\<close>) stored status, the
  ticks not ready, not ready, ready, ready, not ready emit no event at tick 1 and none at
  tick 2, the ready event at tick 3, none at tick 4 and the not-ready event at tick 5: two
  events, and the stored status ends at false. The claim's event at tick 1 is missing,
  because \<^verbatim>\<open>ptr.Equal\<close> of a nil pointer and a pointer to true is false.
\<close>

theorem readiness_hysteresis_from_unknown:
  "map (map ev_msg)
       (fst (repositoryTicks (rp\<lparr>st_HelmRepositoryReady := None\<rparr>)
               [repoF, repoF, repoT, repoT, repoF]))
     = [[], [],
        [''HelmRepository '' @ [CHR 0x27] @ ''default/redpanda-repository'' @ [CHR 0x27]
           @ '' is ready''],
        [],
        [''HelmRepository '' @ [CHR 0x27] @ ''default/redpanda-repository'' @ [CHR 0x27]
           @ '' is not ready'']]
   \<and> length (concat (fst (repositoryTicks (rp\<lparr>st_HelmRepositoryReady := None\<rparr>)
               [repoF, repoF, repoT, repoT, repoF]))) = 2
   \<and> st_HelmRepositoryReady
       (snd (repositoryTicks (rp\<lparr>st_HelmRepositoryReady := None\<rparr>)
               [repoF, repoF, repoT, repoT, repoF])) = Some False"
  by (simp add: reconcile_repositoryReady_def checkIfResourceIsReady_def setReady_def
      ptr_Equal_def repoF_def repoT_def ReadyCondition_def event_def Let_def
      resourceTypeHelmRepository_def resourceTypeHelmRelease_def
      resourceReadyStrFmt_def resourceNotReadyStrFmt_def)

subsection \<open>HelmRelease template and update decision\<close>

text \<open>
  C8: when the values serialize, the template has the interval 30 seconds and the chart
  interval one minute whatever the parent says, the parent's timeout if it sets one and 15
  minutes otherwise, and an upgrade policy in which each of remediation, force,
  cleanupOnFail and preserveValues is the parent's value when the parent sets that field
  and the default otherwise: rollback with one retry for the remediation, false for the
  three flags.
\<close>

theorem createHelmReleaseFromTemplate_defaults:
  assumes "ValuesJSON d rp = Inr v"
  shows "\<exists>hr lg u. createHelmReleaseFromTemplate d sha rp = (Inr hr, lg)
     \<and> hrs_Interval (hr_Spec hr) = 30 * Second
     \<and> hrs_ChartInterval (hr_Spec hr) = Some (1 * Minute)
     \<and> hrs_Timeout (hr_Spec hr)
         = Some (case spec_Timeout rp of None \<Rightarrow> 15 * Minute | Some t \<Rightarrow> t)
     \<and> hrs_Upgrade (hr_Spec hr) = Some u
     \<and> up_Remediation u
         = Some (case Option.bind (spec_Upgrade rp) hu_Remediation of
                   None \<Rightarrow> \<lparr>ur_Retries = 1, ur_Strategy = Some ''rollback''\<rparr>
                 | Some r \<Rightarrow> r)
     \<and> up_Force u
         = (case Option.bind (spec_Upgrade rp) hu_Force of None \<Rightarrow> False | Some b \<Rightarrow> b)
     \<and> up_CleanupOnFail u
         = (case Option.bind (spec_Upgrade rp) hu_CleanupOnFail of
              None \<Rightarrow> False | Some b \<Rightarrow> b)
     \<and> up_PreserveValues u
         = (case Option.bind (spec_Upgrade rp) hu_PreserveValues of
              None \<Rightarrow> False | Some b \<Rightarrow> b)"
  using assms
  by (auto simp add: createHelmReleaseFromTemplate_def mergeUpgrade_def defaultUpgrade_def
      ptr_Deref_def Let_def split: option.splits)

theorem createHelmReleaseFromTemplate_defaults_witness:
  "ValuesJSON deps0 (rp0\<lparr>spec_Upgrade := Some upgradeForce\<rparr>) = Inr ''{}''
   \<and> (\<exists>hr lg u. createHelmReleaseFromTemplate deps0 sha0 (rp0\<lparr>spec_Upgrade := Some upgradeForce\<rparr>)
                   = (Inr hr, lg)
        \<and> hrs_Interval (hr_Spec hr) = 30 * Second
        \<and> hrs_Timeout (hr_Spec hr) = Some (15 * Minute)
        \<and> hrs_Upgrade (hr_Spec hr) = Some u
        \<and> up_Remediation u = Some \<lparr>ur_Retries = 1, ur_Strategy = Some ''rollback''\<rparr>
        \<and> up_Force u = True \<and> up_CleanupOnFail u = False \<and> up_PreserveValues u = False)"
proof -
  have h: "ValuesJSON deps0 (rp0\<lparr>spec_Upgrade := Some upgradeForce\<rparr>) = Inr ''{}''"
    by (simp add: deps0_def valuesJSON0_def)
  from createHelmReleaseFromTemplate_defaults [OF h, of sha0]
  show ?thesis using h
    by (auto simp add: rp0_def upgradeForce_def)
qed

text \<open>
  The fingerprint function reaches the log line only: the template, and with it everything
  \<^verbatim>\<open>reconcileHelmRelease\<close> returns and does besides logging, is the same for any two
  fingerprint functions.
\<close>

lemma template_fst:
  "fst (createHelmReleaseFromTemplate d sha2 rp) = fst (createHelmReleaseFromTemplate d sha rp)"
  by (simp add: createHelmReleaseFromTemplate_def Let_def split: sum.splits)

lemma template_pair:
  "\<exists>T l1 l2. createHelmReleaseFromTemplate d sha rp = (T, l1)
     \<and> createHelmReleaseFromTemplate d sha2 rp = (T, l2)"
  using template_fst [of d sha2 rp sha] by (metis prod.collapse)

lemma helmReleaseRequiresUpdate_iff:
  "fst (helmReleaseRequiresUpdate unm hr hrT) \<longleftrightarrow>
     GetValues unm hr \<noteq> GetValues unm hrT
   \<or> hrs_Chart (hr_Spec hr) \<noteq> hrs_Chart (hr_Spec hrT)
   \<or> (hrs_Version (hr_Spec hr) \<noteq> [] \<and> hrs_Version (hr_Spec hr) \<noteq> hrs_Version (hr_Spec hrT))
   \<or> hrs_Interval (hr_Spec hr) \<noteq> hrs_Interval (hr_Spec hrT)"
  by (simp add: helmReleaseRequiresUpdate_def helmChartRequiresUpdate_def)

lemma createHelmRelease_sha:
  "(case createHelmRelease d cl sha2 rp e of (hr, er, rp1, e1) \<Rightarrow> (hr, er, rp1, calls e1, events e1))
   = (case createHelmRelease d cl sha rp e of (hr, er, rp1, e1) \<Rightarrow> (hr, er, rp1, calls e1, events e1))"
proof -
  obtain T l1 l2 where t: "createHelmReleaseFromTemplate d sha rp = (T, l1)"
      "createHelmReleaseFromTemplate d sha2 rp = (T, l2)"
    using template_pair by blast
  show ?thesis
    by (cases T; cases "cl_write cl (calls e) (CreateHelmRelease (projr T))")
       (simp_all add: createHelmRelease_def t do_write_def emit_def log_Info_def Let_def)
qed

lemma reconcileHelmRelease_sha:
  "visible (reconcileHelmRelease d cl unm sha2 rp e) = visible (reconcileHelmRelease d cl unm sha rp e)"
proof -
  obtain T l1 l2 where t: "createHelmReleaseFromTemplate d sha rp = (T, l1)"
      "createHelmReleaseFromTemplate d sha2 rp = (T, l2)"
    using template_pair by blast
  show ?thesis
  proof (cases "st_HelmRelease rp = []")
    case True
    with createHelmRelease_sha [of d cl sha2 rp e sha] show ?thesis
      by (simp add: reconcileHelmRelease_def visible_def split: prod.splits)
  next
    case ne: False
    show ?thesis
    proof (cases "cl_GetHelmRelease cl (calls e) (rp_Namespace rp, st_HelmRelease rp)")
      case (Inl er)
      with ne createHelmRelease_sha [of d cl sha2 "rp\<lparr>st_HelmRelease := []\<rparr>" e sha] show ?thesis
        by (simp add: reconcileHelmRelease_def visible_def split: prod.splits)
    next
      case (Inr hr)
      show ?thesis
      proof (cases T)
        case (Inl a)
        with ne Inr t show ?thesis
          by (simp add: reconcileHelmRelease_def visible_def emit_def log_Info_def)
      next
        case tr: (Inr hrT)
        obtain b lg where u: "helmReleaseRequiresUpdate unm hr hrT = (b, lg)"
          by (cases "helmReleaseRequiresUpdate unm hr hrT")
        show ?thesis
          using ne Inr t tr u
          by (cases b; cases "cl_write cl (calls e) (UpdateHelmRelease (hr\<lparr>hr_Spec := hr_Spec hrT\<rparr>))")
             (simp_all add: reconcileHelmRelease_def visible_def emit_def log_Info_def do_write_def Let_def)
      qed
    qed
  qed
qed


lemma template_rp0:
  "createHelmReleaseFromTemplate deps0 sha0 rp0
     = (Inr templateHR,
        [''SHA of values file to use: sha256-of-{}''])"
  by (simp add: createHelmReleaseFromTemplate_def deps0_def valuesJSON0_def name0_def
      repositoryName0_def rp0_def liveHR_def mergeUpgrade_def sha0_def templateHR_def)

text \<open>
  C6 on the code: the parent pins chart version 5.6.46 and the live release, equal to the
  template in values, chart name and interval, has an empty chart version. The template
  differs from the live release in the chart version, and \<^verbatim>\<open>reconcileHelmRelease\<close>
  issues no update and emits no event. \<^verbatim>\<open>helmChartRequiresUpdate\<close> receives the live
  chart as its parameter \<^verbatim>\<open>template\<close> and the template's chart as \<^verbatim>\<open>chart\<close>, so the test
  for an empty version falls on the live release; with the two arguments in the order of
  the parameter names the difference is found.
\<close>

theorem reconcileHelmRelease_ignores_pinned_version:
  "createHelmReleaseFromTemplate deps0 sha0 rp0
     = (Inr templateHR, [''SHA of values file to use: sha256-of-{}''])
   \<and> hrs_Version (hr_Spec templateHR) = ''5.6.46''
   \<and> hrs_Version (hr_Spec liveHR_noVersion) = []
   \<and> visible (reconcileHelmRelease deps0 (client_linger liveHR_noVersion 1) unm0 sha0 rp0 no_effects)
       = (rp0, Some liveHR_noVersion, None, [], [])
   \<and> \<not> fst (helmChartRequiresUpdate (hr_Spec liveHR_noVersion) (hr_Spec templateHR))
   \<and> fst (helmChartRequiresUpdate (hr_Spec templateHR) (hr_Spec liveHR_noVersion))"
proof -
  have a: "visible (reconcileHelmRelease deps0 (client_linger liveHR_noVersion 1) unm0 sha0 rp0
                      no_effects)
       = (rp0, Some liveHR_noVersion, None, [], [])"
    by (simp add: reconcileHelmRelease_def template_rp0 visible_def client_linger_def
        no_effects_def helmReleaseRequiresUpdate_def helmChartRequiresUpdate_def GetValues_def
        log_Info_def liveHR_noVersion_def)
       (simp add: rp0_def liveHR_def templateHR_def)
  have f: "hrs_Version (hr_Spec templateHR) = ''5.6.46''"
      "hrs_Version (hr_Spec liveHR_noVersion) = []"
      "hrs_Chart (hr_Spec templateHR) = hrs_Chart (hr_Spec liveHR_noVersion)"
    by (simp_all add: templateHR_def liveHR_def liveHR_noVersion_def)
  from a f template_rp0 show ?thesis by (simp add: helmChartRequiresUpdate_def)
qed

subsection \<open>Deletion protocol\<close>

text \<open>
  C7, as the code does it: with no release name recorded, \<^verbatim>\<open>deleteHelmRelease\<close> succeeds at
  once, issues no call and returns the parent as it was; with a name recorded and the
  HelmRelease not found, it clears both recorded names and succeeds, again without a
  mutating call.
\<close>

theorem deleteHelmRelease_nothing_recorded:
  "(st_HelmRelease rp = [] \<longrightarrow> deleteHelmRelease cl rp e = (None, rp, e))
   \<and> (st_HelmRelease rp \<noteq> []
        \<and> cl_GetHelmRelease cl (calls e) (rp_Namespace rp, st_HelmRelease rp) = Inl er
        \<and> IsNotFound er
      \<longrightarrow> deleteHelmRelease cl rp e
            = (None, rp\<lparr>st_HelmRelease := [], st_HelmRepository := []\<rparr>, e))"
  by (simp add: deleteHelmRelease_def)

theorem deleteHelmRelease_nothing_recorded_witness:
  "st_HelmRelease (rp0\<lparr>st_HelmRelease := []\<rparr>) = []
   \<and> deleteHelmRelease (client_linger liveHR 0) (rp0\<lparr>st_HelmRelease := []\<rparr>) no_effects
       = (None, rp0\<lparr>st_HelmRelease := []\<rparr>, no_effects)
   \<and> st_HelmRelease rp0 \<noteq> []
   \<and> cl_GetHelmRelease (client_linger liveHR 0) (calls no_effects)
        (rp_Namespace rp0, st_HelmRelease rp0) = Inl notFound0
   \<and> IsNotFound notFound0
   \<and> deleteHelmRelease (client_linger liveHR 0) rp0 no_effects
       = (None, rp0\<lparr>st_HelmRelease := [], st_HelmRepository := []\<rparr>, no_effects)"
  using deleteHelmRelease_nothing_recorded
          [of "rp0\<lparr>st_HelmRelease := []\<rparr>" "client_linger liveHR 0" no_effects notFound0]
        deleteHelmRelease_nothing_recorded
          [of rp0 "client_linger liveHR 0" no_effects notFound0]
  by (simp add: rp0_def client_linger_def IsNotFound_def notFound0_def)

text \<open>
  C7 as stated fails: with no release name recorded, the recorded repository name is still
  there afterwards.
\<close>

theorem deleteHelmRelease_keeps_repository_name:
  "st_HelmRelease (rp0\<lparr>st_HelmRelease := []\<rparr>) = []
   \<and> st_HelmRepository
        (fst (snd (deleteHelmRelease (client_linger liveHR 0) (rp0\<lparr>st_HelmRelease := []\<rparr>)
                     no_effects)))
       = ''redpanda-repository''"
  by (simp add: deleteHelmRelease_def rp0_def)


lemma deleteHelmRelease_found:
  assumes "st_HelmRelease rp \<noteq> []"
    and "cl_GetHelmRelease cl (calls e) (rp_Namespace rp, st_HelmRelease rp) = Inr hr"
  shows "\<exists>er. deleteHelmRelease cl rp e
            = (Some er, rp, e\<lparr>calls := calls e @ [DeleteHelmRelease hr (Some Foreground)]\<rparr>)
          \<and> (cl_write cl (calls e) (DeleteHelmRelease hr (Some Foreground)) = None
               \<longrightarrow> er = New ''wait for helm release deletion'')"
  using assms
  by (cases "cl_write cl (calls e) (DeleteHelmRelease hr (Some Foreground))")
     (simp_all add: deleteHelmRelease_def do_write_def)

lemma reconcileDelete_found:
  assumes "st_HelmRelease rp \<noteq> []"
    and "cl_GetHelmRelease cl (calls e) (rp_Namespace rp, st_HelmRelease rp) = Inr hr"
  shows "\<exists>er. reconcileDelete d cl rp e
            = (Some er, rp, e\<lparr>calls := calls e @ [DeleteHelmRelease hr (Some Foreground)]\<rparr>)
          \<and> (cl_write cl (calls e) (DeleteHelmRelease hr (Some Foreground)) = None
               \<longrightarrow> er = New ''wait for helm release deletion'')"
  using deleteHelmRelease_found [OF assms]
  by (auto simp add: reconcileDelete_def)

lemma reconcileDelete_other_error:
  assumes "st_HelmRelease rp \<noteq> []"
    and "cl_GetHelmRelease cl (calls e) (rp_Namespace rp, st_HelmRelease rp) = Inl er"
    and "\<not> IsNotFound er"
  shows "\<exists>er'. reconcileDelete d cl rp e = (Some er', rp, e)"
  using assms by (simp add: reconcileDelete_def deleteHelmRelease_def)

lemma reconcileDelete_removal:
  assumes r: "reconcileDelete d cl rp e = (res, rp', e')"
    and ch: "rp_Finalizers rp' \<noteq> rp_Finalizers rp
             \<or> (\<exists>c \<in> set (drop (length (calls e)) (calls e')). isUpdateRedpanda c)"
  shows "st_HelmRelease rp = []
         \<or> (\<exists>er. cl_GetHelmRelease cl (calls e) (rp_Namespace rp, st_HelmRelease rp) = Inl er
                  \<and> IsNotFound er)"
proof (rule ccontr)
  assume n: "\<not> ?thesis"
  then have ne: "st_HelmRelease rp \<noteq> []" by simp
  show False
  proof (cases "cl_GetHelmRelease cl (calls e) (rp_Namespace rp, st_HelmRelease rp)")
    case (Inl er)
    with n have "\<not> IsNotFound er" by simp
    from reconcileDelete_other_error [OF ne Inl this, of d] r ch show False by auto
  next
    case (Inr hr)
    from reconcileDelete_found [OF ne Inr, of d] r ch show False
      by (auto simp add: isUpdateRedpanda_def)
  qed
qed

lemma reconcileDelete_absent:
  assumes "st_HelmRelease rp \<noteq> []"
    and "cl_GetHelmRelease cl (calls e) (rp_Namespace rp, st_HelmRelease rp) = Inl er"
    and "IsNotFound er"
    and "ContainsFinalizer (rp_Finalizers rp) (FinalizerKey d)"
    and "rp2 = rp\<lparr>st_HelmRelease := [], st_HelmRepository := [],
                   rp_Finalizers := RemoveFinalizer (rp_Finalizers rp) (FinalizerKey d)\<rparr>"
    and "cl_write cl (calls e) (UpdateRedpanda rp2) = None"
  shows "reconcileDelete d cl rp e = (None, rp2, e\<lparr>calls := calls e @ [UpdateRedpanda rp2]\<rparr>)"
  using assms by (simp add: reconcileDelete_def deleteHelmRelease_def do_write_def Let_def)

text \<open>
  C2, as the code does it. An invocation of \<^verbatim>\<open>reconcileDelete\<close> that finds the recorded
  HelmRelease issues exactly one delete call, with foreground propagation, returns an error
  (the error \<open>wait for helm release deletion\<close> when the delete is accepted), and returns the
  parent unchanged, finalizer included, without updating it. An invocation changes the
  finalizers or issues the parent update only if no name is recorded or the HelmRelease is
  not found. When the next invocation observes the HelmRelease absent, the sequence of the
  two invocations issues one delete call, then removes the finalizer and updates the parent.
\<close>

theorem reconcileDelete_protocol:
  "(st_HelmRelease rp \<noteq> []
      \<and> cl_GetHelmRelease cl (calls e) (rp_Namespace rp, st_HelmRelease rp) = Inr hr
    \<longrightarrow> (\<exists>er. reconcileDelete d cl rp e
                 = (Some er, rp, e\<lparr>calls := calls e @ [DeleteHelmRelease hr (Some Foreground)]\<rparr>)
              \<and> (cl_write cl (calls e) (DeleteHelmRelease hr (Some Foreground)) = None
                   \<longrightarrow> er = New ''wait for helm release deletion'')))
   \<and> (rp_Finalizers (fst (snd (reconcileDelete d cl rp e))) \<noteq> rp_Finalizers rp
        \<or> (\<exists>c \<in> set (drop (length (calls e)) (calls (snd (snd (reconcileDelete d cl rp e))))).
              isUpdateRedpanda c)
      \<longrightarrow> st_HelmRelease rp = []
          \<or> (\<exists>er. cl_GetHelmRelease cl (calls e) (rp_Namespace rp, st_HelmRelease rp) = Inl er
                   \<and> IsNotFound er))
   \<and> (st_HelmRelease rp \<noteq> []
        \<and> cl_GetHelmRelease cl (calls e) (rp_Namespace rp, st_HelmRelease rp) = Inr hr
        \<and> cl_write cl (calls e) (DeleteHelmRelease hr (Some Foreground)) = None
        \<and> cl_GetHelmRelease cl (calls e @ [DeleteHelmRelease hr (Some Foreground)])
             (rp_Namespace rp, st_HelmRelease rp) = Inl er0
        \<and> IsNotFound er0
        \<and> ContainsFinalizer (rp_Finalizers rp) (FinalizerKey d)
        \<and> cl_write cl (calls e @ [DeleteHelmRelease hr (Some Foreground)])
             (UpdateRedpanda (rp\<lparr>st_HelmRelease := [], st_HelmRepository := [],
                rp_Finalizers := RemoveFinalizer (rp_Finalizers rp) (FinalizerKey d)\<rparr>)) = None
      \<longrightarrow> deletionSequence d cl (Suc 0) rp e
            = (None,
               rp\<lparr>st_HelmRelease := [], st_HelmRepository := [],
                  rp_Finalizers := RemoveFinalizer (rp_Finalizers rp) (FinalizerKey d)\<rparr>,
               e\<lparr>calls := calls e @ [DeleteHelmRelease hr (Some Foreground),
                    UpdateRedpanda (rp\<lparr>st_HelmRelease := [], st_HelmRepository := [],
                      rp_Finalizers := RemoveFinalizer (rp_Finalizers rp) (FinalizerKey d)\<rparr>)]\<rparr>))"
proof (intro conjI impI)
  assume "st_HelmRelease rp \<noteq> []
      \<and> cl_GetHelmRelease cl (calls e) (rp_Namespace rp, st_HelmRelease rp) = Inr hr"
  then show "\<exists>er. reconcileDelete d cl rp e
                 = (Some er, rp, e\<lparr>calls := calls e @ [DeleteHelmRelease hr (Some Foreground)]\<rparr>)
              \<and> (cl_write cl (calls e) (DeleteHelmRelease hr (Some Foreground)) = None
                   \<longrightarrow> er = New ''wait for helm release deletion'')"
    using reconcileDelete_found [of rp cl e hr d] by simp
next
  assume a: "rp_Finalizers (fst (snd (reconcileDelete d cl rp e))) \<noteq> rp_Finalizers rp
        \<or> (\<exists>c \<in> set (drop (length (calls e)) (calls (snd (snd (reconcileDelete d cl rp e))))).
              isUpdateRedpanda c)"
  obtain res rp' e' where r: "reconcileDelete d cl rp e = (res, rp', e')"
    by (cases "reconcileDelete d cl rp e")
  with a reconcileDelete_removal [OF r]
  show "st_HelmRelease rp = []
          \<or> (\<exists>er. cl_GetHelmRelease cl (calls e) (rp_Namespace rp, st_HelmRelease rp) = Inl er
                   \<and> IsNotFound er)"
    by simp
next
  let ?del = "DeleteHelmRelease hr (Some Foreground)"
  let ?rp2 = "rp\<lparr>st_HelmRelease := [], st_HelmRepository := [],
                rp_Finalizers := RemoveFinalizer (rp_Finalizers rp) (FinalizerKey d)\<rparr>"
  assume a: "st_HelmRelease rp \<noteq> []
        \<and> cl_GetHelmRelease cl (calls e) (rp_Namespace rp, st_HelmRelease rp) = Inr hr
        \<and> cl_write cl (calls e) ?del = None
        \<and> cl_GetHelmRelease cl (calls e @ [?del]) (rp_Namespace rp, st_HelmRelease rp) = Inl er0
        \<and> IsNotFound er0
        \<and> ContainsFinalizer (rp_Finalizers rp) (FinalizerKey d)
        \<and> cl_write cl (calls e @ [?del]) (UpdateRedpanda ?rp2) = None"
  from a reconcileDelete_found [of rp cl e hr d]
  have first: "reconcileDelete d cl rp e
                 = (Some (New ''wait for helm release deletion''), rp, e\<lparr>calls := calls e @ [?del]\<rparr>)"
    by auto
  from a have second: "reconcileDelete d cl rp (e\<lparr>calls := calls e @ [?del]\<rparr>)
                 = (None, ?rp2, e\<lparr>calls := calls e @ [?del]\<rparr>
                                  \<lparr>calls := calls (e\<lparr>calls := calls e @ [?del]\<rparr>) @ [UpdateRedpanda ?rp2]\<rparr>)"
    by (intro reconcileDelete_absent [where er = er0]) simp_all
  show "deletionSequence d cl (Suc 0) rp e
          = (None, ?rp2, e\<lparr>calls := calls e @ [?del, UpdateRedpanda ?rp2]\<rparr>)"
    using first second by simp
qed


lemma rp0_facts:
  "st_HelmRelease rp0 = ''redpanda''" "rp_Namespace rp0 = ''default''"
  "rp_Finalizers rp0 = [''operator.redpanda.com/finalizer'']"
  "FinalizerKey deps0 = ''operator.redpanda.com/finalizer''"
  "hr_Namespace liveHR = ''default''" "hr_Name liveHR = ''redpanda''"
  by (simp_all add: rp0_def deps0_def liveHR_def)

theorem reconcileDelete_protocol_witness:
  "st_HelmRelease rp0 \<noteq> []
   \<and> cl_GetHelmRelease (client_linger liveHR 1) (calls no_effects)
        (rp_Namespace rp0, st_HelmRelease rp0) = Inr liveHR
   \<and> reconcileDelete deps0 (client_linger liveHR 1) rp0 no_effects
        = (Some (New ''wait for helm release deletion''), rp0,
           no_effects\<lparr>calls := [DeleteHelmRelease liveHR (Some Foreground)]\<rparr>)
   \<and> deletionSequence deps0 (client_linger liveHR 1) (Suc 0) rp0 no_effects
        = (None,
           rp0\<lparr>st_HelmRelease := [], st_HelmRepository := [], rp_Finalizers := []\<rparr>,
           no_effects\<lparr>calls := [DeleteHelmRelease liveHR (Some Foreground),
              UpdateRedpanda (rp0\<lparr>st_HelmRelease := [], st_HelmRepository := [],
                                 rp_Finalizers := []\<rparr>)]\<rparr>)
   \<and> rp_Finalizers (fst (snd (reconcileDelete deps0 (client_linger liveHR 0) rp0 no_effects)))
        \<noteq> rp_Finalizers rp0
   \<and> cl_GetHelmRelease (client_linger liveHR 0) (calls no_effects)
        (rp_Namespace rp0, st_HelmRelease rp0) = Inl notFound0
   \<and> IsNotFound notFound0"
proof -
  have h1: "st_HelmRelease rp0 \<noteq> []" by (simp add: rp0_facts)
  have h2: "cl_GetHelmRelease (client_linger liveHR 1) (calls no_effects)
        (rp_Namespace rp0, st_HelmRelease rp0) = Inr liveHR"
    by (simp add: client_linger_def no_effects_def rp0_facts)
  have h3: "cl_write (client_linger liveHR 1) (calls no_effects)
              (DeleteHelmRelease liveHR (Some Foreground)) = None"
    by (simp add: client_linger_def)
  have h4: "cl_GetHelmRelease (client_linger liveHR 1)
              (calls no_effects @ [DeleteHelmRelease liveHR (Some Foreground)])
              (rp_Namespace rp0, st_HelmRelease rp0) = Inl notFound0"
    by (simp add: client_linger_def no_effects_def isDeleteHelmRelease_def)
  have h5: "IsNotFound notFound0" by (simp add: IsNotFound_def notFound0_def)
  have h6: "ContainsFinalizer (rp_Finalizers rp0) (FinalizerKey deps0)"
    by (simp add: ContainsFinalizer_def rp0_facts)
  have h7: "cl_write (client_linger liveHR 1)
              (calls no_effects @ [DeleteHelmRelease liveHR (Some Foreground)])
              (UpdateRedpanda (rp0\<lparr>st_HelmRelease := [], st_HelmRepository := [],
                 rp_Finalizers := RemoveFinalizer (rp_Finalizers rp0) (FinalizerKey deps0)\<rparr>))
            = None"
    by (simp add: client_linger_def)
  have h8: "RemoveFinalizer (rp_Finalizers rp0) (FinalizerKey deps0) = []"
    by (simp add: RemoveFinalizer_def rp0_facts)
  have h9: "rp_Finalizers (fst (snd (reconcileDelete deps0 (client_linger liveHR 0) rp0 no_effects)))
        \<noteq> rp_Finalizers rp0"
    by (simp add: reconcileDelete_def deleteHelmRelease_def client_linger_def rp0_facts
        no_effects_def h5 ContainsFinalizer_def RemoveFinalizer_def do_write_def Let_def)
  have h10: "cl_GetHelmRelease (client_linger liveHR 0) (calls no_effects)
        (rp_Namespace rp0, st_HelmRelease rp0) = Inl notFound0"
    by (simp add: client_linger_def)
  from reconcileDelete_protocol
         [of rp0 "client_linger liveHR 1" no_effects liveHR deps0 notFound0]
       reconcileDelete_protocol
         [of rp0 "client_linger liveHR 0" no_effects liveHR deps0 notFound0]
  show ?thesis using h1 h2 h3 h4 h5 h6 h7 h8 h9 h10
    by (auto simp add: no_effects_def)
qed

text \<open>
  C2 as stated fails: when the HelmRelease is still found at the second invocation, the
  deletion sequence issues two delete calls before the finalizer is removed.
\<close>

theorem deletionSequence_two_deletes:
  "deletionSequence deps0 (client_linger liveHR 2) (Suc (Suc 0)) rp0 no_effects
     = (None,
        rp0\<lparr>st_HelmRelease := [], st_HelmRepository := [], rp_Finalizers := []\<rparr>,
        no_effects\<lparr>calls := [DeleteHelmRelease liveHR (Some Foreground),
           DeleteHelmRelease liveHR (Some Foreground),
           UpdateRedpanda (rp0\<lparr>st_HelmRelease := [], st_HelmRepository := [],
                              rp_Finalizers := []\<rparr>)]\<rparr>)
   \<and> length (filter isDeleteHelmRelease
        (calls (snd (snd (deletionSequence deps0 (client_linger liveHR 2) (Suc (Suc 0)) rp0
                            no_effects))))) = 2"
  by (simp add: reconcileDelete_def deleteHelmRelease_def client_linger_def rp0_facts
      no_effects_def ContainsFinalizer_def RemoveFinalizer_def do_write_def
      isDeleteHelmRelease_def IsNotFound_def notFound0_def Let_def)

subsection \<open>Migration\<close>


























lemmas migration_defs =
  tryMigration_def migrateCluster_def migrateConsole_def migratePods_def migrateService_def
  migrateLabels_def migrateStatefulSet_def migrateConsoleDeployment_def
  migrateConsoleResources_def resourcesName_def ref_or_default_def mutate_def join_error_def
  migration_event_def mig0_def ptr_Deref_def hasLabelsAndAnnotations_def helm_def
  serviceSelector_def ContainsFinalizer_def zero_object_def

lemmas sample_defs =
  client_with_def sample_object_def legacy_object_def sample_pod_def rp0_def deps0_def
  managed0_def notFound0_def refused0_def


text \<open>
  C3 on the code: the check before the console Deployment is deleted reads the StatefulSet.
  A Deployment without the markers stays when the StatefulSet carries them (no call, no
  event), and a Deployment with the markers is deleted, with no propagation policy, when
  the StatefulSet was not found.
\<close>

theorem console_deployment_check_reads_statefulset:
  "\<not> hasLabelsAndAnnotations (legacy_object ''redpanda-console'') rp0
   \<and> m_calls (tryMigration deps0
                (client_with KDeployment (Inr (legacy_object ''redpanda-console''))) rp0) = []
   \<and> m_events (tryMigration deps0
                (client_with KDeployment (Inr (legacy_object ''redpanda-console''))) rp0) = []
   \<and> hasLabelsAndAnnotations (sample_object ''redpanda-console'') rp0
   \<and> m_calls (tryMigration deps0 (client_with KStatefulSet (Inl notFound0)) rp0)
       = [Delete KDeployment (sample_object ''redpanda-console'') None]"
  by (simp add: migration_defs sample_defs Let_def)


text \<open>
  C5 on the code: when only the fetch of the legacy Console fails, the error returned has
  one entry, and its text is the text of the Cluster fetch; with the default references the
  same error comes back when only the fetch of the legacy Cluster fails.
\<close>

theorem console_fetch_error_names_cluster:
  "errorResult (tryMigration deps0 (client_with KConsole (Inl refused0)) rp0)
     = [Wrap ''get cluster reference (default/redpanda)'' (Api refused0)]
   \<and> errorResult (tryMigration deps0 (client_with KCluster (Inl refused0)) rp0)
     = [Wrap ''get cluster reference (default/redpanda)'' (Api refused0)]
   \<and> map Error (errorResult (tryMigration deps0 (client_with KConsole (Inl refused0)) rp0))
     = [''get cluster reference (default/redpanda): connection refused'']"
  by (simp add: migration_defs sample_defs Let_def)

subsection \<open>Idempotence\<close>

text \<open>
  C4 on the code: with the StatefulSet not found and every object that is found already
  correct, the console Deployment included, a run of \<^verbatim>\<open>tryMigration\<close> deletes the
  Deployment and emits an event, and so does every later run on the same resource set.
  The check before the delete reads the variable \<^verbatim>\<open>sts\<close>, which is still the zero value.
  With the StatefulSet found and marked, the same resource set gives no call and no event.
\<close>

theorem tryMigration_deletes_marked_deployment:
  "alreadyMigrated deps0 (client_with KStatefulSet (Inl notFound0)) rp0
   \<and> cl_Get (client_with KStatefulSet (Inl notFound0)) [] KDeployment
        (''default'', ''redpanda-console'') = Inr (sample_object ''redpanda-console'')
   \<and> hasLabelsAndAnnotations (sample_object ''redpanda-console'') rp0
   \<and> m_calls (tryMigration deps0 (client_with KStatefulSet (Inl notFound0)) rp0)
       = [Delete KDeployment (sample_object ''redpanda-console'') None]
   \<and> map ev_msg (m_events (tryMigration deps0 (client_with KStatefulSet (Inl notFound0)) rp0))
       = [''delete console Deployment'']
   \<and> alreadyMigrated deps0 (client_with KRedpanda (Inl notFound0)) rp0
   \<and> m_calls (tryMigration deps0 (client_with KRedpanda (Inl notFound0)) rp0) = []
   \<and> m_events (tryMigration deps0 (client_with KRedpanda (Inl notFound0)) rp0) = []"
proof -
  have h: "alreadyMigrated deps0 (client_with KStatefulSet (Inl notFound0)) rp0"
      "alreadyMigrated deps0 (client_with KRedpanda (Inl notFound0)) rp0"
    by (simp_all add: alreadyMigrated_def fetched_ok_def pod_ok_def service_ok_def
        consoleResourcesName_def resourcesName_def ref_or_default_def ptr_Deref_def
        hasLabelsAndAnnotations_def helm_def serviceSelector_def ContainsFinalizer_def
        zero_object_def sample_defs)
  have r: "cl_Get (client_with KStatefulSet (Inl notFound0)) [] KDeployment
        (''default'', ''redpanda-console'') = Inr (sample_object ''redpanda-console'')"
      "hasLabelsAndAnnotations (sample_object ''redpanda-console'') rp0"
      "m_calls (tryMigration deps0 (client_with KStatefulSet (Inl notFound0)) rp0)
         = [Delete KDeployment (sample_object ''redpanda-console'') None]"
      "map ev_msg (m_events (tryMigration deps0 (client_with KStatefulSet (Inl notFound0)) rp0))
         = [''delete console Deployment'']"
      "m_calls (tryMigration deps0 (client_with KRedpanda (Inl notFound0)) rp0) = []"
      "m_events (tryMigration deps0 (client_with KRedpanda (Inl notFound0)) rp0) = []"
    by (simp_all add: migration_defs sample_defs Let_def)
  from h r show ?thesis by simp
qed

end
